theory Spec2Isabelle
  imports Complex_Main "HOL-Library.Sublist" "HOL-Library.Word"
begin

section \<open>Data model\<close>

text \<open>
  The storefront client of \<^verbatim>\<open>src/app/frontend/src/App.js\<close>. Identifiers
  assigned by the server are natural numbers, JavaScript numbers that carry a price or a
  shoe size are real numbers (rounding of IEEE doubles is not modelled) and a quantity is
  an integer. The text the code compares or folds (the fields of a product and the
  filter criteria) is a JavaScript string: a list of 16-bit code units. The strings
  the code only passes along (tokens, e-mail addresses, messages, URLs) are HOL strings.
\<close>

type_synonym ident = nat

type_synonym utf16 = "16 word list"

text \<open>A string literal of the source, as code units.\<close>

definition lit :: "string \<Rightarrow> utf16" where
  "lit s = map of_char s"

record user_profile =
  user_id :: ident
  email :: string
  full_name :: string

record cart_item =
  item_id :: ident
  product_id :: ident
  item_size :: real
  quantity :: int

record product =
  prod_id :: ident
  name :: utf16
  brand :: utf16
  category :: utf16
  price :: real
  description :: utf16
  image_url :: string
  sizes :: "real list"

text \<open>
  What a rejected promise of axios carries: no response at all, or a response with a
  status outside 2xx whose body may hold a \<^verbatim>\<open>detail\<close> message. \<open>TypeError\<close> is
  what reading a property of \<^verbatim>\<open>undefined\<close> or \<^verbatim>\<open>null\<close>, or calling what is
  not a function, throws.
\<close>

datatype js_error = NetworkError | HttpError nat "string option" | TypeError

text \<open>
  The body of a 2xx answer of \<^verbatim>\<open>GET /cart\<close>, as far as lines 111 and 112 tell
  bodies apart: an array of cart lines; an array one of whose elements is \<^verbatim>\<open>null\<close>,
  on which the callback of \<^verbatim>\<open>reduce\<close> throws at \<^verbatim>\<open>item.quantity\<close>; or a body
  that is not an array (an object, a string, \<^verbatim>\<open>null\<close>), on which
  \<^verbatim>\<open>response.data.reduce\<close> cannot be called.
\<close>

datatype cart_body = CartLines "cart_item list" | ArrayHoldingNull | NotAnArray

section \<open>Catalog filter pipeline\<close>

text \<open>
  \<^verbatim>\<open>s.includes(t)\<close>: \<open>t\<close> occurs in \<open>s\<close> as a contiguous run of code units; the
  empty string occurs in every string.
\<close>

fun str_includes :: "utf16 \<Rightarrow> utf16 \<Rightarrow> bool" where
  "str_includes [] t = (t = [])"
| "str_includes (c # s) t = (prefix t (c # s) \<or> str_includes s t)"

text \<open>
  \<^verbatim>\<open>filterProducts\<close> (lines 553 to 572): three optional passes of
  \<^verbatim>\<open>Array.prototype.filter\<close> over the product list; the value handed to
  \<^verbatim>\<open>setFilteredProducts\<close> is the result. A pass is skipped when its criterion is
  \<^verbatim>\<open>"all"\<close>, or when the search term is the empty (falsy) string.
  \<^verbatim>\<open>String.prototype.toLowerCase\<close> belongs to the JavaScript engine, not to the
  source: it is the parameter \<open>toLowerCase\<close>.
\<close>

definition matchesSearch :: "(utf16 \<Rightarrow> utf16) \<Rightarrow> utf16 \<Rightarrow> product \<Rightarrow> bool" where
  "matchesSearch toLowerCase searchTerm product =
     (str_includes (toLowerCase (name product)) (toLowerCase searchTerm) \<or>
      str_includes (toLowerCase (description product)) (toLowerCase searchTerm))"

definition filterProducts ::
  "(utf16 \<Rightarrow> utf16) \<Rightarrow> product list \<Rightarrow> utf16 \<Rightarrow> utf16 \<Rightarrow> utf16 \<Rightarrow> product list" where
  "filterProducts toLowerCase products selectedCategory selectedBrand searchTerm =
     (let filtered0 = products;
          filtered1 = (if selectedCategory \<noteq> lit ''all''
                       then filter (\<lambda>product. category product = selectedCategory) filtered0
                       else filtered0);
          filtered2 = (if selectedBrand \<noteq> lit ''all''
                       then filter (\<lambda>product. brand product = selectedBrand) filtered1
                       else filtered1);
          filtered3 = (if searchTerm \<noteq> []
                       then filter (matchesSearch toLowerCase searchTerm) filtered2
                       else filtered2)
      in filtered3)"


subsection \<open>What the engine's \<^verbatim>\<open>toLowerCase\<close> does on a fragment of Unicode\<close>

text \<open>
  ECMAScript's \<^verbatim>\<open>String.prototype.toLowerCase\<close> follows the Unicode default case
  conversion, \<^verbatim>\<open>SpecialCasing.txt\<close> included. On text made of the Basic Latin,
  Latin-1 and Greek letters, digits and spaces, that is: the capitals \<^verbatim>\<open>A\<close> to
  \<^verbatim>\<open>Z\<close>, U+00C0 to U+00DE without U+00D7, and U+0391 to U+03A9 move up by 32; a capital
  sigma U+03A3 that follows a letter and is not followed by one becomes the final sigma
  U+03C2 instead of U+03C3; everything else stays. The examples below use this fragment
  only.
\<close>

definition isCapital :: "16 word \<Rightarrow> bool" where
  "isCapital c =
     ((0x41 \<le> c \<and> c \<le> 0x5A) \<or> (0xC0 \<le> c \<and> c \<le> 0xDE \<and> c \<noteq> 0xD7) \<or>
      (0x391 \<le> c \<and> c \<le> 0x3A9 \<and> c \<noteq> 0x3A2))"

definition isSmall :: "16 word \<Rightarrow> bool" where
  "isSmall c =
     ((0x61 \<le> c \<and> c \<le> 0x7A) \<or> (0xDF \<le> c \<and> c \<le> 0xFF \<and> c \<noteq> 0xF7) \<or>
      (0x3B1 \<le> c \<and> c \<le> 0x3C9))"

definition isCased :: "16 word \<Rightarrow> bool" where
  "isCased c = (isCapital c \<or> isSmall c)"

definition lowerUnit :: "16 word \<Rightarrow> 16 word" where
  "lowerUnit c = (if isCapital c then c + 0x20 else c)"

fun lowerAfter :: "bool \<Rightarrow> utf16 \<Rightarrow> utf16" where
  "lowerAfter afterLetter [] = []"
| "lowerAfter afterLetter (c # cs) =
     (if c = 0x3A3 \<and> afterLetter \<and> \<not> (case cs of [] \<Rightarrow> False | d # _ \<Rightarrow> isCased d)
      then 0x3C2 else lowerUnit c) # lowerAfter (isCased c) cs"

definition jsToLowerCase :: "utf16 \<Rightarrow> utf16" where
  "jsToLowerCase s = lowerAfter False s"

section \<open>Application state and its observable effects\<close>

text \<open>
  The state hooks of \<^verbatim>\<open>AuthProvider\<close> (\<open>user\<close>, \<open>token\<close>) and of
  \<^verbatim>\<open>CartProvider\<close> (\<open>cartItems\<close>, \<open>cartCount\<close>), the \<^verbatim>\<open>token\<close> key of
  \<^verbatim>\<open>localStorage\<close> (\<open>storage\<close>), and three logs of what the code does to the outside:
  the toasts it shows, the lines it writes with \<^verbatim>\<open>console.error\<close>, and the requests
  it sends through axios together with the moment each one settles. \<open>cartItems\<close> holds
  whatever line 111 stores: the body of the answer, array or not.

  An asynchronous function is two steps: it sends its request and returns to the event
  loop, and its handler runs when the request settles, with the outcome as an argument:
  \<open>Inl\<close> is the rejected promise, \<open>Inr\<close> the body of the answer. Between the two steps
  other calls and other handlers may run, so a handler takes the state as it is when the
  request settles, and the token the request was sent with as an argument of its own.
  The functions named after the source's functions do both steps with nothing in
  between.
\<close>

datatype toast = ToastSuccess string | ToastError string

datatype request =
    PostLogin string string
  | PostRegister string string string
  | GetMe "string option"
  | GetCart "string option"
  | PostCartAdd "string option" ident real int
  | DeleteCart "string option" ident
  | GetProduct ident

datatype net_event = Sent request | Settled request bool

record world =
  user :: "user_profile option"
  token :: "string option"
  storage :: "string option"
  cartItems :: cart_body
  cartCount :: int
  toasts :: "toast list"
  console :: "(string \<times> js_error) list"
  network :: "net_event list"

definition succeeded :: "js_error + 'a \<Rightarrow> bool" where
  "succeeded r = (case r of Inl _ \<Rightarrow> False | Inr _ \<Rightarrow> True)"

definition roundTrip :: "request \<Rightarrow> js_error + 'a \<Rightarrow> world \<Rightarrow> world" where
  "roundTrip rq r w = w\<lparr>network := network w @ [Sent rq, Settled rq (succeeded r)]\<rparr>"

definition showToast :: "toast \<Rightarrow> world \<Rightarrow> world" where
  "showToast t w = w\<lparr>toasts := toasts w @ [t]\<rparr>"

definition consoleError :: "string \<Rightarrow> js_error \<Rightarrow> world \<Rightarrow> world" where
  "consoleError label error w = w\<lparr>console := console w @ [(label, error)]\<rparr>"

text \<open>\<^verbatim>\<open>if (token)\<close>: \<^verbatim>\<open>null\<close> and the empty string are falsy.\<close>

definition truthy :: "string option \<Rightarrow> bool" where
  "truthy t = (case t of None \<Rightarrow> False | Some s \<Rightarrow> s \<noteq> [])"

text \<open>A request of the log that has been sent more often than it has settled.\<close>

definition inFlight :: "request \<Rightarrow> net_event list \<Rightarrow> bool" where
  "inFlight rq evs =
     (length (filter (\<lambda>ev. ev = Settled rq True \<or> ev = Settled rq False) evs)
        < length (filter (\<lambda>ev. ev = Sent rq) evs))"

subsection \<open>The messages\<close>

definition eacute :: char where
  "eacute = CHR 0xE9"

definition msg_login_ok :: string where
  "msg_login_ok = ''Connexion r'' @ [eacute] @ ''ussie!''"

definition msg_login_failed :: string where
  "msg_login_failed = ''Email ou mot de passe incorrect''"

definition msg_register_ok :: string where
  "msg_register_ok =
     ''Inscription r'' @ [eacute] @ ''ussie! Vous pouvez maintenant vous connecter.''"

definition msg_register_failed :: string where
  "msg_register_failed = ''Erreur lors de l'' @ [CHR 0x27] @ ''inscription''"

definition msg_logout_ok :: string where
  "msg_logout_ok = ''D'' @ [eacute] @ ''connexion r'' @ [eacute] @ ''ussie''"

definition msg_add_ok :: string where
  "msg_add_ok = ''Produit ajout'' @ [eacute] @ '' au panier!''"

definition msg_add_failed :: string where
  "msg_add_failed = ''Erreur lors de l'' @ [CHR 0x27] @ ''ajout au panier''"

definition msg_remove_ok :: string where
  "msg_remove_ok = ''Produit retir'' @ [eacute] @ '' du panier''"

definition msg_remove_failed :: string where
  "msg_remove_failed = ''Erreur lors de la suppression''"

section \<open>Session store (\<^verbatim>\<open>AuthProvider\<close>)\<close>

text \<open>\<^verbatim>\<open>logout\<close> (lines 67 to 72). It has no failing branch.\<close>

definition logout :: "world \<Rightarrow> world" where
  "logout w =
     showToast (ToastSuccess msg_logout_ok) (w\<lparr>user := None, token := None, storage := None\<rparr>)"

text \<open>
  \<^verbatim>\<open>fetchUser\<close> (lines 30 to 40): sending the request, and the handler that runs
  when it settles.
\<close>

definition fetchUser_request :: "world \<Rightarrow> world" where
  "fetchUser_request w = w\<lparr>network := network w @ [Sent (GetMe (token w))]\<rparr>"

definition fetchUser_settled :: "string option \<Rightarrow> js_error + user_profile \<Rightarrow> world \<Rightarrow> world" where
  "fetchUser_settled sentWith r w =
     (let w1 = w\<lparr>network := network w @ [Settled (GetMe sentWith) (succeeded r)]\<rparr>
      in case r of
           Inr data \<Rightarrow> w1\<lparr>user := Some data\<rparr>
         | Inl error \<Rightarrow> logout (consoleError ''Failed to fetch user:'' error w1))"

definition fetchUser :: "js_error + user_profile \<Rightarrow> world \<Rightarrow> world" where
  "fetchUser r w = fetchUser_settled (token w) r (fetchUser_request w)"

text \<open>\<^verbatim>\<open>login\<close> (lines 42 to 54); the response body is the \<^verbatim>\<open>access_token\<close>.\<close>

definition login :: "string \<Rightarrow> string \<Rightarrow> js_error + string \<Rightarrow> world \<Rightarrow> bool \<times> world" where
  "login em password r w =
     (let w1 = roundTrip (PostLogin em password) r w
      in case r of
           Inr access_token \<Rightarrow>
             (True, showToast (ToastSuccess msg_login_ok)
                      (w1\<lparr>token := Some access_token, storage := Some access_token\<rparr>))
         | Inl error \<Rightarrow> (False, showToast (ToastError msg_login_failed) w1))"

text \<open>
  \<^verbatim>\<open>register\<close> (lines 56 to 65). The message of a failure is
  \<^verbatim>\<open>error.response?.data?.detail || "Erreur lors de l'inscription"\<close>: the server's
  detail when there is a response that has one and it is not the empty string.
\<close>

definition registerFailureMessage :: "js_error \<Rightarrow> string" where
  "registerFailureMessage error =
     (case error of
        HttpError _ (Some detail) \<Rightarrow> if detail \<noteq> [] then detail else msg_register_failed
      | _ \<Rightarrow> msg_register_failed)"

definition register :: "string \<Rightarrow> string \<Rightarrow> string \<Rightarrow> js_error + unit \<Rightarrow> world \<Rightarrow> bool \<times> world" where
  "register em password fullName r w =
     (let w1 = roundTrip (PostRegister em password fullName) r w
      in case r of
           Inr _ \<Rightarrow> (True, showToast (ToastSuccess msg_register_ok) w1)
         | Inl error \<Rightarrow> (False, showToast (ToastError (registerFailureMessage error)) w1))"

section \<open>Cart synchronization engine (\<^verbatim>\<open>CartProvider\<close>)\<close>

text \<open>
  \<^verbatim>\<open>fetchCart\<close> (lines 106 to 116): sending the request, and the handler that runs
  when it settles. Everything from line 108 to line 112 is inside the \<^verbatim>\<open>try\<close>:
  line 111 stores the body, then line 112 computes the count with \<^verbatim>\<open>reduce\<close>, which
  throws a \<^verbatim>\<open>TypeError\<close> on a body that is not an array of cart lines; the
  \<^verbatim>\<open>catch\<close> logs that error as it logs a rejected request.
\<close>

definition fetchCart_request :: "world \<Rightarrow> world" where
  "fetchCart_request w = w\<lparr>network := network w @ [Sent (GetCart (token w))]\<rparr>"

definition fetchCart_settled :: "string option \<Rightarrow> js_error + cart_body \<Rightarrow> world \<Rightarrow> world" where
  "fetchCart_settled sentWith r w =
     (let w1 = w\<lparr>network := network w @ [Settled (GetCart sentWith) (succeeded r)]\<rparr>
      in case r of
           Inr data \<Rightarrow>
             (let w2 = w1\<lparr>cartItems := data\<rparr>
              in case data of
                   CartLines items \<Rightarrow>
                     w2\<lparr>cartCount := foldl (\<lambda>sum item. sum + quantity item) 0 items\<rparr>
                 | ArrayHoldingNull \<Rightarrow> consoleError ''Failed to fetch cart:'' TypeError w2
                 | NotAnArray \<Rightarrow> consoleError ''Failed to fetch cart:'' TypeError w2)
         | Inl error \<Rightarrow> consoleError ''Failed to fetch cart:'' error w1)"

definition fetchCart :: "js_error + cart_body \<Rightarrow> world \<Rightarrow> world" where
  "fetchCart r w = fetchCart_settled (token w) r (fetchCart_request w)"


text \<open>
  \<^verbatim>\<open>addToCart\<close> (lines 118 to 129). \<^verbatim>\<open>quantity\<close> is optional and defaults to 1.
  \<^verbatim>\<open>fetchCart()\<close> is called without \<^verbatim>\<open>await\<close>: its request leaves, the success
  toast is shown, and its handler runs afterwards.
\<close>

definition addToCart ::
  "js_error + unit \<Rightarrow> js_error + cart_body \<Rightarrow> ident \<Rightarrow> real \<Rightarrow> int option \<Rightarrow> world \<Rightarrow> world" where
  "addToCart r rc productId sz quantityArg w =
     (let qty = (case quantityArg of None \<Rightarrow> 1 | Some q \<Rightarrow> q);
          w1 = roundTrip (PostCartAdd (token w) productId sz qty) r w
      in case r of
           Inr _ \<Rightarrow>
             fetchCart_settled (token w) rc
               (showToast (ToastSuccess msg_add_ok) (fetchCart_request w1))
         | Inl error \<Rightarrow> showToast (ToastError msg_add_failed) w1)"

text \<open>\<^verbatim>\<open>removeFromCart\<close> (lines 131 to 141).\<close>

definition removeFromCart ::
  "js_error + unit \<Rightarrow> js_error + cart_body \<Rightarrow> ident \<Rightarrow> world \<Rightarrow> world" where
  "removeFromCart r rc itemId w =
     (let w1 = roundTrip (DeleteCart (token w) itemId) r w
      in case r of
           Inr _ \<Rightarrow>
             fetchCart_settled (token w) rc
               (showToast (ToastSuccess msg_remove_ok) (fetchCart_request w1))
         | Inl error \<Rightarrow> showToast (ToastError msg_remove_failed) w1)"

section \<open>Effects that follow a change of the token\<close>

text \<open>
  The two \<^verbatim>\<open>useEffect\<close> hooks with the dependency \<^verbatim>\<open>[token]\<close>: lines 24 to 28
  in \<^verbatim>\<open>AuthProvider\<close> and lines 97 to 104 in \<^verbatim>\<open>CartProvider\<close>. React runs them
  after the first render and after a render in which the token differs from the one of
  the previous render, the effect of the child (\<^verbatim>\<open>CartProvider\<close>) before the one of
  the parent. Neither effect awaits anything: with a token each sends its request and
  returns, so both requests are in flight together and settle in either order.
\<close>

definition cartTokenEffect :: "world \<Rightarrow> world" where
  "cartTokenEffect w =
     (if truthy (token w) then fetchCart_request w
      else w\<lparr>cartItems := CartLines [], cartCount := 0\<rparr>)"

definition authTokenEffect :: "world \<Rightarrow> world" where
  "authTokenEffect w = (if truthy (token w) then fetchUser_request w else w)"

definition tokenEffects :: "world \<Rightarrow> world" where
  "tokenEffects w = authTokenEffect (cartTokenEffect w)"

definition afterRender :: "string option \<Rightarrow> world \<Rightarrow> world" where
  "afterRender previousToken w = (if token w = previousToken then w else tokenEffects w)"

text \<open>
  A call of \<open>logout\<close> or \<open>login\<close>, and the profile handler, each with the effects of
  the render that follows.
\<close>

definition logoutAndEffects :: "world \<Rightarrow> world" where
  "logoutAndEffects w = afterRender (token w) (logout w)"

definition loginAndEffects ::
  "string \<Rightarrow> string \<Rightarrow> js_error + string \<Rightarrow> world \<Rightarrow> bool \<times> world" where
  "loginAndEffects em password r w =
     (case login em password r w of (ok, w1) \<Rightarrow> (ok, afterRender (token w) w1))"

definition fetchUserSettledAndEffects ::
  "string option \<Rightarrow> js_error + user_profile \<Rightarrow> world \<Rightarrow> world" where
  "fetchUserSettledAndEffects sentWith r w = afterRender (token w) (fetchUser_settled sentWith r w)"

text \<open>
  The first render: \<open>user\<close> is \<^verbatim>\<open>null\<close>, \<open>token\<close> is what \<^verbatim>\<open>localStorage\<close>
  holds (lines 21 and 22), the cart is empty (lines 93 and 94), and both effects run.
\<close>

definition mount :: "string option \<Rightarrow> world" where
  "mount stored =
     tokenEffects \<lparr>user = None, token = stored, storage = stored, cartItems = CartLines [],
                   cartCount = 0, toasts = [], console = [], network = []\<rparr>"

text \<open>The requests of a log that go to a cart endpoint.\<close>

fun isCartRequest :: "request \<Rightarrow> bool" where
  "isCartRequest (GetCart _) = True"
| "isCartRequest (PostCartAdd _ _ _ _) = True"
| "isCartRequest (DeleteCart _ _) = True"
| "isCartRequest _ = False"

fun eventRequest :: "net_event \<Rightarrow> request" where
  "eventRequest (Sent rq) = rq"
| "eventRequest (Settled rq _) = rq"

definition cartTraffic :: "net_event list \<Rightarrow> net_event list" where
  "cartTraffic evs = filter (\<lambda>ev. isCartRequest (eventRequest ev)) evs"

section \<open>Cart enrichment resolver (\<^verbatim>\<open>CartModal\<close>)\<close>

text \<open>
  The state of \<^verbatim>\<open>CartModal\<close> is the object \<^verbatim>\<open>products\<close>, a dictionary from
  product id to product; its requests and console lines are logged beside it. The
  product endpoint is a function of the position of the request in the loop and of the
  product id, so that it may answer two requests for one product differently.
\<close>

record modal =
  products :: "ident \<rightharpoonup> product"
  modal_network :: "net_event list"
  modal_console :: "(string \<times> js_error) list"

type_synonym product_endpoint = "nat \<Rightarrow> ident \<Rightarrow> js_error + product"

text \<open>
  The \<^verbatim>\<open>for\<close> loop of \<^verbatim>\<open>fetchProductDetails\<close> (lines 302 to 309): \<open>k\<close> counts
  the requests made so far, \<open>productMap\<close> is the local dictionary being filled.
\<close>

fun fetchLoop ::
  "product_endpoint \<Rightarrow> nat \<Rightarrow> cart_item list \<Rightarrow> (ident \<rightharpoonup> product) \<Rightarrow> modal
     \<Rightarrow> (ident \<rightharpoonup> product) \<times> modal" where
  "fetchLoop ep k [] productMap m = (productMap, m)"
| "fetchLoop ep k (item # rest) productMap m =
     (let rq = GetProduct (product_id item);
          r = ep k (product_id item);
          m1 = m\<lparr>modal_network := modal_network m @ [Sent rq, Settled rq (succeeded r)]\<rparr>
      in case r of
           Inr data \<Rightarrow> fetchLoop ep (Suc k) rest (productMap(product_id item \<mapsto> data)) m1
         | Inl error \<Rightarrow>
             fetchLoop ep (Suc k) rest productMap
               (m1\<lparr>modal_console := modal_console m1 @ [(''Failed to fetch product:'', error)]\<rparr>))"

text \<open>
  \<^verbatim>\<open>fetchProductDetails\<close> (lines 300 to 311): the loop starts from an empty
  dictionary, which then replaces \<^verbatim>\<open>products\<close>.
\<close>

definition fetchProductDetails :: "product_endpoint \<Rightarrow> cart_item list \<Rightarrow> modal \<Rightarrow> modal" where
  "fetchProductDetails ep items m =
     (case fetchLoop ep 0 items Map.empty m of (productMap, m1) \<Rightarrow> m1\<lparr>products := productMap\<rparr>)"

text \<open>The \<^verbatim>\<open>useEffect\<close> with the dependency \<^verbatim>\<open>[cartItems]\<close> (lines 294 to 298).\<close>

definition cartItemsEffect :: "product_endpoint \<Rightarrow> cart_item list \<Rightarrow> modal \<Rightarrow> modal" where
  "cartItemsEffect ep items m = (if length items > 0 then fetchProductDetails ep items m else m)"

text \<open>
  The total (lines 313 to 316). Reading \<^verbatim>\<open>product.price\<close> throws when
  \<^verbatim>\<open>product\<close> is \<^verbatim>\<open>undefined\<close>; the conditional reads it only when the product
  is there. An exception would leave the \<^verbatim>\<open>reduce\<close> at once.
\<close>

definition readPrice :: "product option \<Rightarrow> js_error + real" where
  "readPrice p = (case p of None \<Rightarrow> Inl TypeError | Some pr \<Rightarrow> Inr (price pr))"

fun totalStep :: "(ident \<rightharpoonup> product) \<Rightarrow> js_error + real \<Rightarrow> cart_item \<Rightarrow> js_error + real" where
  "totalStep prods (Inl error) item = Inl error"
| "totalStep prods (Inr acc) item =
     (let product = prods (product_id item)
      in if product \<noteq> None
         then (case readPrice product of
                 Inl error \<Rightarrow> Inl error
               | Inr pr \<Rightarrow> Inr (acc + pr * of_int (quantity item)))
         else Inr (acc + 0))"

definition cart_total :: "(ident \<rightharpoonup> product) \<Rightarrow> cart_item list \<Rightarrow> js_error + real" where
  "cart_total prods items = foldl (totalStep prods) (Inr 0) items"

text \<open>
  The rows of the cart (lines 328 to 359): \<^verbatim>\<open>cartItems.map\<close> gives \<^verbatim>\<open>null\<close> for an
  item whose product is not in the dictionary and a row otherwise; React draws nothing
  for \<^verbatim>\<open>null\<close>. A row shows the item's id, size and quantity and the product's image,
  name and price.
\<close>

record cart_row =
  row_key :: ident
  row_image :: string
  row_name :: utf16
  row_size :: real
  row_price :: real
  row_quantity :: int

definition renderItem :: "(ident \<rightharpoonup> product) \<Rightarrow> cart_item \<Rightarrow> cart_row option" where
  "renderItem prods item =
     (case prods (product_id item) of
        None \<Rightarrow> None
      | Some product \<Rightarrow>
          Some \<lparr>row_key = item_id item, row_image = image_url product, row_name = name product,
                row_size = item_size item, row_price = price product,
                row_quantity = quantity item\<rparr>)"

definition renderedRows :: "(ident \<rightharpoonup> product) \<Rightarrow> cart_item list \<Rightarrow> cart_row list" where
  "renderedRows prods items =
     concat (map (\<lambda>item. case renderItem prods item of None \<Rightarrow> [] | Some row \<Rightarrow> [row]) items)"

text \<open>
  The lines of the cart whose product is in the dictionary, each with its product, in
  the order of the cart; and the row drawn for such a line.
\<close>

fun resolvedLines :: "(ident \<rightharpoonup> product) \<Rightarrow> cart_item list \<Rightarrow> (cart_item \<times> product) list" where
  "resolvedLines prods [] = []"
| "resolvedLines prods (item # items) =
     (case prods (product_id item) of
        None \<Rightarrow> resolvedLines prods items
      | Some p \<Rightarrow> (item, p) # resolvedLines prods items)"

definition rowOf :: "cart_item \<times> product \<Rightarrow> cart_row" where
  "rowOf ip =
     (case ip of (item, p) \<Rightarrow>
        \<lparr>row_key = item_id item, row_image = image_url p, row_name = name p,
          row_size = item_size item, row_price = price p, row_quantity = quantity item\<rparr>)"

text \<open>
  The specification's reading of the resolver, written from its words: one fetch for each
  item that lacks a cached product, none for an item whose product is cached.
\<close>

definition spec_fetches :: "(ident \<rightharpoonup> product) \<Rightarrow> cart_item list \<Rightarrow> request list" where
  "spec_fetches cache items =
     map (\<lambda>item. GetProduct (product_id item)) (filter (\<lambda>item. cache (product_id item) = None) items)"

definition sentRequests :: "net_event list \<Rightarrow> request list" where
  "sentRequests evs = concat (map (\<lambda>ev. case ev of Sent rq \<Rightarrow> [rq] | Settled _ _ \<Rightarrow> []) evs)"

text \<open>
  The products the endpoint gives for the product \<open>pid\<close>, in the order of the cart, when
  the requests are numbered from \<open>k\<close>: one for each line of that product whose request
  succeeds.
\<close>

fun answersFrom :: "product_endpoint \<Rightarrow> nat \<Rightarrow> cart_item list \<Rightarrow> ident \<Rightarrow> product list" where
  "answersFrom ep k [] pid = []"
| "answersFrom ep k (item # rest) pid =
     (if product_id item = pid
      then (case ep k pid of Inr data \<Rightarrow> [data] | Inl _ \<Rightarrow> [])
      else []) @ answersFrom ep (Suc k) rest pid"

section \<open>Example data\<close>

definition airMax :: product where
  "airMax = \<lparr>prod_id = 1, name = lit ''Air Max'', brand = lit ''Nike'',
             category = lit ''sneakers'', price = 120, description = lit ''Running shoe'',
             image_url = ''airmax.png'', sizes = [40, 41, 42.5]\<rparr>"

definition classicBoot :: product where
  "classicBoot = \<lparr>prod_id = 2, name = lit ''Classic Boot'', brand = lit ''Timberland'',
                  category = lit ''boots'', price = 180, description = lit ''Leather boot'',
                  image_url = ''boot.png'', sizes = [42, 43]\<rparr>"





definition line1 :: cart_item where
  "line1 = \<lparr>item_id = 10, product_id = 1, item_size = 42.5, quantity = 2\<rparr>"

definition line2 :: cart_item where
  "line2 = \<lparr>item_id = 11, product_id = 2, item_size = 43, quantity = 3\<rparr>"

definition alice :: user_profile where
  "alice = \<lparr>user_id = 7, email = ''alice@example.org'', full_name = ''Alice''\<rparr>"

definition loggedOut :: world where
  "loggedOut = \<lparr>user = None, token = None, storage = None, cartItems = CartLines [],
                cartCount = 0, toasts = [], console = [], network = []\<rparr>"

definition loggedIn :: world where
  "loggedIn = \<lparr>user = Some alice, token = Some ''tok'', storage = Some ''tok'',
               cartItems = CartLines [line1, line2], cartCount = 5,
               toasts = [], console = [], network = []\<rparr>"

text \<open>
  A run of the application: it starts with a stored token, so the cart request and the
  profile request leave together; the profile request fails for want of a network, which
  logs the user out; then the cart request is answered with two lines.
\<close>

definition restored :: world where
  "restored = mount (Some ''tok'')"

definition profileFailed :: world where
  "profileFailed = fetchUserSettledAndEffects (Some ''tok'') (Inl NetworkError) restored"

definition lateCart :: world where
  "lateCart = fetchCart_settled (Some ''tok'') (Inr (CartLines [line1, line2])) profileFailed"

definition closedModal :: modal where
  "closedModal = \<lparr>products = Map.empty, modal_network = [], modal_console = []\<rparr>"

definition catalogEndpoint :: product_endpoint where
  "catalogEndpoint k pid =
     (if pid = 1 then Inr airMax else if pid = 2 then Inr classicBoot
      else Inl (HttpError 404 None))"

definition cachedModal :: modal where
  "cachedModal = cartItemsEffect catalogEndpoint [line1] closedModal"

definition airMaxOnly :: "ident \<rightharpoonup> product" where
  "airMaxOnly = [1 \<mapsto> airMax]"

section \<open>Properties of the catalog filter pipeline\<close>






text \<open>The three passes are one pass with the conjunction of the three tests.\<close>

lemma filterProducts_conv:
  "filterProducts lc P cat br q =
     filter (\<lambda>p. (cat = lit ''all'' \<or> category p = cat) \<and> (br = lit ''all'' \<or> brand p = br) \<and>
                 (q = [] \<or> matchesSearch lc q p)) P"
  by (auto simp: filterProducts_def Let_def intro!: filter_cong)

lemmas lower_defs = jsToLowerCase_def lowerUnit_def isCased_def isCapital_def isSmall_def

lemma catalog_search_boot:
  "filterProducts jsToLowerCase [airMax, classicBoot] (lit ''all'') (lit ''all'') (lit ''BOOT'')
     = [classicBoot]"
  by (simp add: filterProducts_def matchesSearch_def airMax_def classicBoot_def lower_defs
        lit_def)




text \<open>
  Claim C2. With the criteria \<^verbatim>\<open>"all"\<close>, \<^verbatim>\<open>"all"\<close> and the empty search term the
  filter returns the product list unchanged; filtering a filtered list again with the
  same criteria changes nothing; and for all criteria the result is a subsequence of the
  product list, its products in their original relative order. This holds whatever
  \<^verbatim>\<open>toLowerCase\<close> does.
\<close>

theorem filterProducts_identity_idempotent_stable:
  "filterProducts lc P (lit ''all'') (lit ''all'') [] = P \<and>
   filterProducts lc (filterProducts lc P cat br q) cat br q = filterProducts lc P cat br q \<and>
   subseq (filterProducts lc P cat br q) P"
  by (simp add: filterProducts_conv)

theorem filterProducts_identity_idempotent_stable_witness:
  "filterProducts jsToLowerCase [airMax, classicBoot] (lit ''all'') (lit ''all'') []
     = [airMax, classicBoot] \<and>
   filterProducts jsToLowerCase [classicBoot] (lit ''all'') (lit ''all'') (lit ''BOOT'')
     = [classicBoot] \<and>
   subseq [classicBoot] [airMax, classicBoot]"
  using filterProducts_identity_idempotent_stable
          [of jsToLowerCase "[airMax, classicBoot]" "lit ''all''" "lit ''all''" "lit ''BOOT''"]
  by (simp add: catalog_search_boot)




section \<open>Properties of the session store and the cart engine\<close>

lemmas world_ops = roundTrip_def showToast_def consoleError_def

lemma foldl_quantity:
  "foldl (\<lambda>sum item. sum + quantity item) a items = a + sum_list (map quantity items)"
  by (induction items arbitrary: a) auto

lemma logout_fields:
  "user (logout w) = None" "token (logout w) = None" "storage (logout w) = None"
  "cartItems (logout w) = cartItems w" "cartCount (logout w) = cartCount w"
  "toasts (logout w) = toasts w @ [ToastSuccess msg_logout_ok]"
  "console (logout w) = console w" "network (logout w) = network w"
  by (simp_all add: logout_def world_ops)

lemma tokenEffects_no_token:
  "token w = None \<Longrightarrow> tokenEffects w = w\<lparr>cartItems := CartLines [], cartCount := 0\<rparr>"
  by (simp add: tokenEffects_def authTokenEffect_def cartTokenEffect_def truthy_def)

text \<open>
  The render after \<open>logout\<close> runs the effects only when there was a token before: then
  the cart effect, finding none, empties the cart.
\<close>

lemma logoutAndEffects_conv:
  "logoutAndEffects w =
     (if token w = None then logout w
      else (logout w)\<lparr>cartItems := CartLines [], cartCount := 0\<rparr>)"
  by (auto simp: logoutAndEffects_def afterRender_def logout_fields tokenEffects_no_token)

lemmas run_defs =
  restored_def profileFailed_def lateCart_def mount_def tokenEffects_def authTokenEffect_def
  cartTokenEffect_def truthy_def fetchCart_settled_def fetchCart_request_def
  fetchUser_settled_def fetchUser_request_def fetchUserSettledAndEffects_def afterRender_def
  logout_def logoutAndEffects_def succeeded_def world_ops

text \<open>
  Claim C1. When \<^verbatim>\<open>fetchCart\<close> succeeds, whatever list of items the server returns
  becomes the cart, and the cart count is the sum of the quantities of the items of the
  cart; this holds for the handler alone as well, whenever it runs and whatever token
  the request was sent with.
\<close>

theorem fetchCart_count_is_quantity_sum:
  "cartItems (fetchCart (Inr (CartLines items)) w) = CartLines items \<and>
   cartCount (fetchCart (Inr (CartLines items)) w) = (\<Sum>item\<leftarrow>items. quantity item) \<and>
   cartItems (fetchCart_settled sentWith (Inr (CartLines items)) w) = CartLines items \<and>
   cartCount (fetchCart_settled sentWith (Inr (CartLines items)) w)
     = (\<Sum>item\<leftarrow>items. quantity item)"
  by (simp add: fetchCart_def fetchCart_settled_def fetchCart_request_def foldl_quantity)

text \<open>Two lines with quantities 2 and 3: the count is 5, not 2.\<close>

theorem fetchCart_count_is_quantity_sum_witness:
  "cartCount (fetchCart (Inr (CartLines [line1, line2])) loggedOut) = 5 \<and>
   cartItems (fetchCart (Inr (CartLines [line1, line2])) loggedOut) = CartLines [line1, line2] \<and>
   length [line1, line2] = 2"
  using fetchCart_count_is_quantity_sum [of "[line1, line2]" loggedOut None]
  by (simp add: line1_def line2_def)

text \<open>
  Claim C5, as the code has it. After \<^verbatim>\<open>logout\<close> and the effects of the render that
  follows, the token is gone from \<^verbatim>\<open>localStorage\<close> and from the state and the user
  profile is \<^verbatim>\<open>null\<close>. When there was a token before the call, the cart is empty and
  the cart count is 0; when there was none, no effect runs and the cart and its count
  stay as they were. A second \<^verbatim>\<open>logout\<close> leaves all five as the first left them, and
  the two calls send no request and write no error to the console.
\<close>

theorem logout_clears_session_and_cart:
  "storage (logoutAndEffects w) = None \<and>
   token (logoutAndEffects w) = None \<and>
   user (logoutAndEffects w) = None \<and>
   (token w \<noteq> None \<longrightarrow>
      cartItems (logoutAndEffects w) = CartLines [] \<and> cartCount (logoutAndEffects w) = 0) \<and>
   (token w = None \<longrightarrow>
      cartItems (logoutAndEffects w) = cartItems w \<and>
      cartCount (logoutAndEffects w) = cartCount w) \<and>
   storage (logoutAndEffects (logoutAndEffects w)) = storage (logoutAndEffects w) \<and>
   token (logoutAndEffects (logoutAndEffects w)) = token (logoutAndEffects w) \<and>
   user (logoutAndEffects (logoutAndEffects w)) = user (logoutAndEffects w) \<and>
   cartItems (logoutAndEffects (logoutAndEffects w)) = cartItems (logoutAndEffects w) \<and>
   cartCount (logoutAndEffects (logoutAndEffects w)) = cartCount (logoutAndEffects w) \<and>
   console (logoutAndEffects (logoutAndEffects w)) = console w \<and>
   network (logoutAndEffects (logoutAndEffects w)) = network w"
  by (simp add: logoutAndEffects_conv logout_fields)

text \<open>A logged-in user with two lines in the cart logs out.\<close>

theorem logout_clears_session_and_cart_witness:
  "token loggedIn \<noteq> None \<and>
   cartItems loggedIn = CartLines [line1, line2] \<and>
   storage (logoutAndEffects loggedIn) = None \<and>
   user (logoutAndEffects loggedIn) = None \<and>
   cartItems (logoutAndEffects loggedIn) = CartLines [] \<and>
   cartCount (logoutAndEffects loggedIn) = 0 \<and>
   token loggedOut = None \<and>
   cartItems (logoutAndEffects loggedOut) = CartLines []"
  using logout_clears_session_and_cart [of loggedIn]
        logout_clears_session_and_cart [of loggedOut]
  by (simp add: loggedIn_def loggedOut_def)

text \<open>
  The claim as written fails. In the run that starts with a stored token, the cart
  request is still in flight when the failed profile request logs the user out; its
  answer then puts two lines in the cart of a state that has no token. A call of
  \<^verbatim>\<open>logout\<close> in that state changes no token, so no effect runs, and the cart keeps
  its two lines and its count of 5.
\<close>

theorem logout_keeps_late_cart:
  "inFlight (GetCart (Some ''tok'')) (network profileFailed) \<and>
   token profileFailed = None \<and>
   cartItems profileFailed = CartLines [] \<and>
   token lateCart = None \<and>
   cartItems (logoutAndEffects lateCart) = CartLines [line1, line2] \<and>
   cartCount (logoutAndEffects lateCart) = 5"
  by (simp add: run_defs inFlight_def line1_def line2_def)

text \<open>
  Claim C6, as the code has it. A call of \<^verbatim>\<open>login\<close>, of \<^verbatim>\<open>register\<close> or of
  \<^verbatim>\<open>logout\<close> shows exactly one toast. The forced logout after a failed profile
  request goes through the same \<^verbatim>\<open>logout\<close>: it shows exactly one toast too, the
  logout success message, and leaves the user profile, the token and the stored token
  absent.
\<close>

theorem session_operations_notify_once:
  "(\<exists>t. toasts (snd (login em password r w)) = toasts w @ [t]) \<and>
   (\<exists>t. toasts (snd (register em password fullName r' w)) = toasts w @ [t]) \<and>
   toasts (logout w) = toasts w @ [ToastSuccess msg_logout_ok] \<and>
   toasts (fetchUser (Inl error) w) = toasts w @ [ToastSuccess msg_logout_ok] \<and>
   user (fetchUser (Inl error) w) = None \<and>
   token (fetchUser (Inl error) w) = None \<and>
   storage (fetchUser (Inl error) w) = None"
  by (cases r; cases r')
     (simp_all add: login_def register_def logout_def fetchUser_def fetchUser_settled_def
        fetchUser_request_def world_ops)

theorem session_operations_notify_once_witness:
  "toasts (snd (login ''alice@example.org'' ''secret'' (Inr ''tok'') loggedOut))
     = [ToastSuccess msg_login_ok] \<and>
   toasts (snd (register ''alice@example.org'' ''secret'' ''Alice''
                  (Inl (HttpError 400 (Some ''Email already registered''))) loggedOut))
     = [ToastError ''Email already registered''] \<and>
   toasts (logout loggedIn) = [ToastSuccess msg_logout_ok] \<and>
   user (fetchUser (Inl (HttpError 401 None)) loggedIn) = None"
  using session_operations_notify_once
          [of "''alice@example.org''" "''secret''" "Inr ''tok''" loggedOut "''Alice''"
              "Inl (HttpError 400 (Some ''Email already registered''))" "HttpError 401 None"]
        session_operations_notify_once
          [of "''alice@example.org''" "''secret''" "Inr ''tok''" loggedIn "''Alice''"
              "Inl (HttpError 400 (Some ''Email already registered''))" "HttpError 401 None"]
  by (simp add: login_def register_def registerFailureMessage_def loggedOut_def loggedIn_def
        world_ops)

text \<open>
  The claim as written fails: with a logged-in user and no toast shown so far, a profile
  request that fails for want of a network shows the logout success toast.
\<close>

theorem forced_logout_not_silent:
  "toasts loggedIn = [] \<and>
   toasts (fetchUser (Inl NetworkError) loggedIn) = [ToastSuccess msg_logout_ok] \<and>
   toasts (fetchUser (Inl NetworkError) loggedIn) \<noteq> toasts loggedIn"
  by (simp add: fetchUser_def fetchUser_settled_def fetchUser_request_def logout_def
        loggedIn_def world_ops)

text \<open>
  Claim C7. When the login request fails, for whatever reason, \<^verbatim>\<open>login\<close> returns
  \<^verbatim>\<open>false\<close>; the user profile, the token and the stored token are what they were;
  exactly one toast is shown, an error with a fixed text that depends neither on the
  email, nor on the password, nor on the failure; and the only request sent, effects
  included, is the login request itself, so none goes to a cart endpoint.
\<close>

theorem failed_login_leaves_session:
  "fst (loginAndEffects em password (Inl error) w) = False \<and>
   user (snd (loginAndEffects em password (Inl error) w)) = user w \<and>
   token (snd (loginAndEffects em password (Inl error) w)) = token w \<and>
   storage (snd (loginAndEffects em password (Inl error) w)) = storage w \<and>
   cartItems (snd (loginAndEffects em password (Inl error) w)) = cartItems w \<and>
   cartCount (snd (loginAndEffects em password (Inl error) w)) = cartCount w \<and>
   toasts (snd (loginAndEffects em password (Inl error) w))
     = toasts w @ [ToastError msg_login_failed] \<and>
   network (snd (loginAndEffects em password (Inl error) w))
     = network w @ [Sent (PostLogin em password), Settled (PostLogin em password) False] \<and>
   cartTraffic (network (snd (loginAndEffects em password (Inl error) w)))
     = cartTraffic (network w)"
  by (simp add: loginAndEffects_def login_def afterRender_def world_ops succeeded_def
        cartTraffic_def)

theorem failed_login_leaves_session_witness:
  "loginAndEffects ''alice@example.org'' ''wrong'' (Inl (HttpError 401 None)) loggedOut
     = (False, loggedOut\<lparr>toasts := [ToastError msg_login_failed],
                          network := [Sent (PostLogin ''alice@example.org'' ''wrong''),
                                      Settled (PostLogin ''alice@example.org'' ''wrong'') False]\<rparr>) \<and>
   cartTraffic (network (snd (loginAndEffects ''alice@example.org'' ''wrong''
                                 (Inl (HttpError 401 None)) loggedOut))) = []"
  using failed_login_leaves_session
          [of "''alice@example.org''" "''wrong''" "HttpError 401 None" loggedOut]
  by (simp add: loginAndEffects_def login_def afterRender_def world_ops succeeded_def
        cartTraffic_def loggedOut_def)




text \<open>
  Claim C9, as the code has it. When the add request succeeds, \<^verbatim>\<open>addToCart\<close> sends
  the cart request after the add request has settled, and the cart and its count become
  what \<^verbatim>\<open>fetchCart\<close> makes of the answer: nothing is inserted locally. When the add
  request fails, no cart request is sent and the cart and its count stay as they were.
  \<^verbatim>\<open>removeFromCart\<close> does the same with its delete request.
\<close>

theorem cart_mutation_then_resync:
  "network (addToCart (Inr ()) rc productId sz q w)
     = network w @
       [Sent (PostCartAdd (token w) productId sz (case q of None \<Rightarrow> 1 | Some n \<Rightarrow> n)),
        Settled (PostCartAdd (token w) productId sz (case q of None \<Rightarrow> 1 | Some n \<Rightarrow> n)) True,
        Sent (GetCart (token w)), Settled (GetCart (token w)) (succeeded rc)] \<and>
   cartItems (addToCart (Inr ()) rc productId sz q w) = cartItems (fetchCart rc w) \<and>
   cartCount (addToCart (Inr ()) rc productId sz q w) = cartCount (fetchCart rc w) \<and>
   network (addToCart (Inl error) rc productId sz q w)
     = network w @
       [Sent (PostCartAdd (token w) productId sz (case q of None \<Rightarrow> 1 | Some n \<Rightarrow> n)),
        Settled (PostCartAdd (token w) productId sz (case q of None \<Rightarrow> 1 | Some n \<Rightarrow> n)) False] \<and>
   cartItems (addToCart (Inl error) rc productId sz q w) = cartItems w \<and>
   cartCount (addToCart (Inl error) rc productId sz q w) = cartCount w \<and>
   network (removeFromCart (Inr ()) rc itemId w)
     = network w @
       [Sent (DeleteCart (token w) itemId), Settled (DeleteCart (token w) itemId) True,
        Sent (GetCart (token w)), Settled (GetCart (token w)) (succeeded rc)] \<and>
   cartItems (removeFromCart (Inr ()) rc itemId w) = cartItems (fetchCart rc w) \<and>
   cartCount (removeFromCart (Inr ()) rc itemId w) = cartCount (fetchCart rc w) \<and>
   network (removeFromCart (Inl error) rc itemId w)
     = network w @
       [Sent (DeleteCart (token w) itemId), Settled (DeleteCart (token w) itemId) False] \<and>
   cartItems (removeFromCart (Inl error) rc itemId w) = cartItems w \<and>
   cartCount (removeFromCart (Inl error) rc itemId w) = cartCount w"
  by (cases rc)
     (simp_all add: addToCart_def removeFromCart_def fetchCart_def fetchCart_settled_def
        fetchCart_request_def world_ops succeeded_def Let_def split: cart_body.splits)

theorem cart_mutation_then_resync_witness:
  "sentRequests (network (addToCart (Inr ()) (Inr (CartLines [line1])) 1 42.5 (Some 2) loggedOut))
     = [PostCartAdd None 1 42.5 2, GetCart None] \<and>
   cartItems (addToCart (Inr ()) (Inr (CartLines [line1])) 1 42.5 (Some 2) loggedOut)
     = CartLines [line1] \<and>
   cartCount (addToCart (Inr ()) (Inr (CartLines [line1])) 1 42.5 (Some 2) loggedOut) = 2 \<and>
   cartItems (removeFromCart (Inr ()) (Inr (CartLines [])) 10 loggedIn) = CartLines []"
  using cart_mutation_then_resync
          [of "Inr (CartLines [line1])" 1 "42.5" "Some 2" loggedOut NetworkError 10]
        cart_mutation_then_resync
          [of "Inr (CartLines [])" 1 "42.5" "Some 2" loggedIn NetworkError 10]
  by (simp add: sentRequests_def fetchCart_def fetchCart_settled_def fetchCart_request_def
        loggedOut_def loggedIn_def line1_def)

text \<open>
  The claim as written fails: when the add request fails for want of a network, the add
  request is the only one sent, and no cart request follows it.
\<close>

theorem failed_add_no_resync:
  "sentRequests
     (network (addToCart (Inl NetworkError) (Inr (CartLines [line1])) 1 42.5 None loggedOut))
     = [PostCartAdd None 1 42.5 1] \<and>
   GetCart None \<notin> set (sentRequests
      (network (addToCart (Inl NetworkError) (Inr (CartLines [line1])) 1 42.5 None loggedOut)))"
  by (simp add: addToCart_def loggedOut_def world_ops sentRequests_def succeeded_def)

section \<open>Properties of the cart enrichment resolver\<close>

lemma foldl_totalStep:
  "foldl (totalStep prods) (Inr acc) items
     = Inr (acc + (\<Sum>(item, p)\<leftarrow>resolvedLines prods items. price p * of_int (quantity item)))"
  by (induction items arbitrary: acc) (auto simp: readPrice_def Let_def split: option.splits)

lemma cart_total_conv:
  "cart_total prods items
     = Inr (\<Sum>(item, p)\<leftarrow>resolvedLines prods items. price p * of_int (quantity item))"
  by (simp add: cart_total_def foldl_totalStep)

lemma renderedRows_conv: "renderedRows prods items = map rowOf (resolvedLines prods items)"
  by (induction items)
     (auto simp: renderedRows_def renderItem_def rowOf_def split: option.splits)

lemma resolvedLines_append:
  "resolvedLines prods (xs @ ys) = resolvedLines prods xs @ resolvedLines prods ys"
  by (induction xs) (auto split: option.splits)

text \<open>
  Claim C4. For every cart and every dictionary of products, the total is computed
  without an exception and is the sum of price times quantity over the lines whose
  product is in the dictionary; the rows drawn are the rows of exactly those lines, in
  the order of the cart. A line whose product is not in the dictionary adds nothing to
  the running total, is drawn as nothing, and can be taken out of the cart without
  changing the total or the rows.
\<close>

theorem cart_total_resolved_sum:
  "cart_total prods items
     = Inr (\<Sum>(item, p)\<leftarrow>resolvedLines prods items. price p * of_int (quantity item)) \<and>
   renderedRows prods items = map rowOf (resolvedLines prods items) \<and>
   (prods (product_id item) = None \<longrightarrow>
      totalStep prods (Inr acc) item = Inr acc \<and>
      renderItem prods item = None \<and>
      cart_total prods (before @ item # after) = cart_total prods (before @ after) \<and>
      renderedRows prods (before @ item # after) = renderedRows prods (before @ after))"
  by (simp add: cart_total_conv renderedRows_conv resolvedLines_append renderItem_def)

text \<open>Only the first of two lines has its product: the total is 2 times 120.\<close>

theorem cart_total_resolved_sum_witness:
  "airMaxOnly (product_id line2) = None \<and>
   cart_total airMaxOnly [line1, line2] = Inr 240 \<and>
   cart_total airMaxOnly [line1, line2] = cart_total airMaxOnly [line1] \<and>
   renderedRows airMaxOnly [line1, line2] = renderedRows airMaxOnly [line1] \<and>
   renderItem airMaxOnly line2 = None"
  using cart_total_resolved_sum [of airMaxOnly "[line1, line2]" line2 0 "[line1]" "[]"]
  by (simp add: airMaxOnly_def line1_def line2_def airMax_def cart_total_def readPrice_def
        renderedRows_def renderItem_def rowOf_def)

lemma sentRequests_append: "sentRequests (xs @ ys) = sentRequests xs @ sentRequests ys"
  by (simp add: sentRequests_def)

lemma fetchLoop_requests:
  "sentRequests (modal_network (snd (fetchLoop ep k items productMap m)))
     = sentRequests (modal_network m) @ map (\<lambda>item. GetProduct (product_id item)) items"
proof (induction items arbitrary: k productMap m)
  case Nil
  show ?case by simp
next
  case (Cons item rest)
  show ?case
    by (cases "ep k (product_id item)")
       (simp_all add: Cons.IH Let_def sentRequests_append, simp_all add: sentRequests_def)
qed

text \<open>
  The dictionary the loop ends with: for each product id, the last product the endpoint
  gave for it during the loop, or what the dictionary held at the start when the
  endpoint gave none.
\<close>

lemma fetchLoop_map:
  "fst (fetchLoop ep k items productMap m) pid
     = (if answersFrom ep k items pid = [] then productMap pid
        else Some (last (answersFrom ep k items pid)))"
proof (induction items arbitrary: k productMap m)
  case Nil
  show ?case by simp
next
  case (Cons item rest)
  show ?case
  proof (cases "ep k (product_id item)")
    case (Inl error)
    then show ?thesis
      by (auto simp: Cons.IH Let_def)
  next
    case (Inr data)
    then show ?thesis
      by (auto simp: Cons.IH Let_def)
  qed
qed

lemma cartItemsEffect_requests:
  "sentRequests (modal_network (cartItemsEffect ep items m))
     = sentRequests (modal_network m) @ map (\<lambda>item. GetProduct (product_id item)) items"
proof (cases "length items > 0")
  case True
  obtain pm m1 where l: "fetchLoop ep 0 items Map.empty m = (pm, m1)"
    by (cases "fetchLoop ep 0 items Map.empty m")
  have "sentRequests (modal_network m1)
     = sentRequests (modal_network m) @ map (\<lambda>item. GetProduct (product_id item)) items"
    using fetchLoop_requests [of ep 0 items Map.empty m] by (simp add: l)
  with True show ?thesis
    by (simp add: cartItemsEffect_def fetchProductDetails_def l)
next
  case False
  then show ?thesis by (simp add: cartItemsEffect_def)
qed

lemma cartItemsEffect_products:
  assumes "items \<noteq> []"
  shows "products (cartItemsEffect ep items m) pid
     = (if answersFrom ep 0 items pid = [] then None
        else Some (last (answersFrom ep 0 items pid)))"
proof -
  obtain pm m1 where l: "fetchLoop ep 0 items Map.empty m = (pm, m1)"
    by (cases "fetchLoop ep 0 items Map.empty m")
  have "pm pid = (if answersFrom ep 0 items pid = [] then None
                  else Some (last (answersFrom ep 0 items pid)))"
    using fetchLoop_map [of ep 0 items Map.empty m pid] by (simp add: l)
  with assms show ?thesis
    by (simp add: cartItemsEffect_def fetchProductDetails_def l)
qed

lemma answersFrom_absent:
  "pid \<notin> product_id ` set items \<Longrightarrow> answersFrom ep k items pid = []"
  by (induction items arbitrary: k) auto

text \<open>
  Claim C10, as the code has it. On every change of the cart, the resolver sends exactly
  one product request for each line of the cart, in the order of the cart, whether or
  not the product of the line is already in the dictionary. When the cart is not empty
  the dictionary is then built anew from the answers alone: a product id maps to the
  last product the endpoint gave for it in this run, and to nothing when the endpoint
  gave none, whatever the dictionary held before; in particular a product of no line of
  the cart is dropped. When the cart is empty nothing is sent and the dictionary stays
  as it was.
\<close>

theorem resolver_fetches_every_item:
  "sentRequests (modal_network (cartItemsEffect ep items m))
     = sentRequests (modal_network m) @ map (\<lambda>item. GetProduct (product_id item)) items \<and>
   (items \<noteq> [] \<longrightarrow>
      products (cartItemsEffect ep items m) pid
        = (if answersFrom ep 0 items pid = [] then None
           else Some (last (answersFrom ep 0 items pid))) \<and>
      (pid \<notin> product_id ` set items \<longrightarrow> products (cartItemsEffect ep items m) pid = None)) \<and>
   (items = [] \<longrightarrow> cartItemsEffect ep items m = m)"
  by (simp add: cartItemsEffect_requests cartItemsEffect_products answersFrom_absent)
     (simp add: cartItemsEffect_def)

text \<open>
  With the first product in the dictionary, a cart that holds the second line only makes
  the resolver ask for the second product, and the first product leaves the dictionary.
\<close>

theorem resolver_fetches_every_item_witness:
  "sentRequests (modal_network (cartItemsEffect catalogEndpoint [line1, line2] closedModal))
     = [GetProduct 1, GetProduct 2] \<and>
   [line2] \<noteq> [] \<and> 1 \<notin> product_id ` set [line2] \<and>
   products cachedModal 1 = Some airMax \<and>
   products (cartItemsEffect catalogEndpoint [line2] cachedModal) 1 = None \<and>
   products (cartItemsEffect catalogEndpoint [line2] cachedModal) 2 = Some classicBoot \<and>
   cartItemsEffect catalogEndpoint [] cachedModal = cachedModal"
  using resolver_fetches_every_item [of catalogEndpoint "[line1, line2]" closedModal 1]
        resolver_fetches_every_item [of catalogEndpoint "[line2]" cachedModal 1]
        resolver_fetches_every_item [of catalogEndpoint "[line2]" cachedModal 2]
        resolver_fetches_every_item [of catalogEndpoint "[]" cachedModal 1]
  by (simp add: closedModal_def cachedModal_def line1_def line2_def sentRequests_def
        catalogEndpoint_def cartItemsEffect_def fetchProductDetails_def succeeded_def Let_def)

text \<open>
  The claim as written fails: once the first line has been resolved and its product is
  in the dictionary, a cart of two lines makes the resolver ask for both products, where
  the claim has one request, for the second product only.
\<close>

theorem resolver_refetches_cached:
  "products cachedModal 1 = Some airMax \<and>
   spec_fetches (products cachedModal) [line1, line2] = [GetProduct 2] \<and>
   sentRequests (modal_network (cartItemsEffect catalogEndpoint [line1, line2] cachedModal))
     = sentRequests (modal_network cachedModal) @ [GetProduct 1, GetProduct 2] \<and>
   sentRequests (modal_network (cartItemsEffect catalogEndpoint [line1, line2] cachedModal))
     \<noteq> sentRequests (modal_network cachedModal)
         @ spec_fetches (products cachedModal) [line1, line2]"
  by (simp add: cachedModal_def cartItemsEffect_def fetchProductDetails_def catalogEndpoint_def
        closedModal_def line1_def line2_def spec_fetches_def sentRequests_def succeeded_def
        Let_def)

end
